theory Spec2Isabelle
  imports Complex_Main
begin

section \<open>Strings\<close>

text \<open>
  Python strings are modelled as \<open>string\<close>, the UTF-8 bytes of the text. The source's
  messages contain three characters outside ASCII; they are written out as their UTF-8
  encodings: the em dash U+2014, the check mark U+2705 and the warning sign U+26A0
  followed by the variation selector U+FE0F.
\<close>

definition em_dash :: string where
  "em_dash = [CHR 0xE2, CHR 0x80, CHR 0x94]"

definition check_mark :: string where
  "check_mark = [CHR 0xE2, CHR 0x9C, CHR 0x85]"

definition warning_sign :: string where
  "warning_sign = [CHR 0xE2, CHR 0x9A, CHR 0xA0, CHR 0xEF, CHR 0xB8, CHR 0x8F]"

section \<open>The heuristic signals of app.py\<close>

text \<open>
  The feature dictionary \<open>feat\<close> maps feature names to numbers. Its values are ints and
  finite floats; both are real numbers, and Python compares an int with a float by value.
  The float literal \<open>0.6\<close> is the double nearest to 6/10, which lies below 6/10 while the
  next double lies above it, so for every int or double \<open>r\<close> the test \<open>r > 0.6\<close> of the
  source holds exactly when \<open>r > 6/10\<close> holds over the reals. The other thresholds
  (3, 50, 1.0 and the defaults 0 and 10) are exact.
\<close>

type_synonym feat = "string \<rightharpoonup> real"

definition feat_get :: "feat \<Rightarrow> string \<Rightarrow> real \<Rightarrow> real" where
  \<comment> \<open>\<open>feat.get(key, default)\<close>\<close>
  "feat_get feat k d = (case feat k of Some v \<Rightarrow> v | None \<Rightarrow> d)"

definition flag_few_tx :: string where
  "flag_few_tx = ''Very few transactions '' @ em_dash @ '' new or dormant account''"

definition flag_high_freq :: string where
  "flag_high_freq =
     ''Extremely high transaction frequency '' @ em_dash @ '' bot-like behavior''"

definition flag_repeated :: string where
  "flag_repeated =
     ''High repeated_ratio '' @ em_dash @ '' interacting with the same counterparty often''"

definition flag_low_entropy :: string where
  "flag_low_entropy = ''Low hour entropy '' @ em_dash @ '' very regular timing''"

definition flag_none :: string where
  "flag_none = ''No strong heuristic flags detected '' @ check_mark"

definition heuristic_signals :: "feat \<Rightarrow> string list" where
  \<comment> \<open>app.py, the list \<open>expl\<close> built under "Heuristic explanations"\<close>
  "heuristic_signals feat =
     (let expl = [];
          expl = (if feat_get feat ''tx_count'' 0 < 3 then expl @ [flag_few_tx] else expl);
          expl = (if feat_get feat ''tx_freq_per_day'' 0 > 50
                  then expl @ [flag_high_freq] else expl);
          expl = (if feat_get feat ''repeated_ratio'' 0 > 6 / 10
                  then expl @ [flag_repeated] else expl);
          expl = (if feat_get feat ''hour_entropy'' 10 < 1
                  then expl @ [flag_low_entropy] else expl);
          expl = (if expl = [] then expl @ [flag_none] else expl)
      in expl)"

text \<open>
  The rule table of the specification, section 4.4, with the flag texts as the
  specification prints them.
\<close>

definition spec_flag_few_tx :: string where
  "spec_flag_few_tx = ''very few transactions '' @ em_dash @ '' new/dormant account''"

definition spec_flag_high_freq :: string where
  "spec_flag_high_freq = ''extremely high frequency '' @ em_dash @ '' bot-like''"

definition spec_flag_repeated :: string where
  "spec_flag_repeated = ''high repeated-counterparty ratio''"

definition spec_flag_low_entropy :: string where
  "spec_flag_low_entropy = ''low hour entropy '' @ em_dash @ '' regular timing''"

definition fired :: "(bool \<times> string) list \<Rightarrow> string list" where
  \<comment> \<open>the flags of the rules whose condition holds, in the order of the table\<close>
  "fired rules = map snd (filter fst rules)"

definition spec_rules :: "feat \<Rightarrow> (bool \<times> string) list" where
  "spec_rules feat =
     [(feat_get feat ''tx_count'' 0 < 3, spec_flag_few_tx),
      (feat_get feat ''tx_freq_per_day'' 0 > 50, spec_flag_high_freq),
      (feat_get feat ''repeated_ratio'' 0 > 6 / 10, spec_flag_repeated),
      (feat_get feat ''hour_entropy'' 10 < 1, spec_flag_low_entropy)]"

definition code_rules :: "feat \<Rightarrow> (bool \<times> string) list" where
  \<comment> \<open>the same four conditions with the texts the source appends\<close>
  "code_rules feat =
     [(feat_get feat ''tx_count'' 0 < 3, flag_few_tx),
      (feat_get feat ''tx_freq_per_day'' 0 > 50, flag_high_freq),
      (feat_get feat ''repeated_ratio'' 0 > 6 / 10, flag_repeated),
      (feat_get feat ''hour_entropy'' 10 < 1, flag_low_entropy)]"

definition default_features :: feat where
  \<comment> \<open>the defaults of the four \<open>feat.get\<close> calls\<close>
  "default_features =
     [''tx_count'' \<mapsto> 0, ''tx_freq_per_day'' \<mapsto> 0, ''repeated_ratio'' \<mapsto> 0,
      ''hour_entropy'' \<mapsto> 10]"

definition with_defaults :: "feat \<Rightarrow> feat" where
  \<comment> \<open>the dictionary completed with the defaults: the entries of \<open>feat\<close> win\<close>
  "with_defaults feat = default_features ++ feat"

section \<open>utils/etherscan.py\<close>

text \<open>
  A raised exception is a value: an instance of a subclass of \<open>Exception\<close>, with its
  class name and the text \<open>str(e)\<close>. Every exception that the requests library, the JSON
  decoder and attribute lookup raise is of this kind, and it is what the handlers
  \<open>except Exception\<close> of the source catch.
\<close>

datatype exn = Exn (exn_class: string) (str: string)

text \<open>
  What \<open>r.json()\<close> can return: a Python value decoded from JSON. A decoded object is a
  dict, written as the list of its items; \<open>map_of\<close> looks a key up.
\<close>

datatype json =
    JNull
  | JBool bool
  | JInt int
  | JFloat real
  | JStr string
  | JArr "json list"
  | JObj "(string \<times> json) list"

text \<open>
  The HTTP layer is the requests library. A response is given by what its two methods
  used by the source do: \<open>r.raise_for_status()\<close> returns or raises (an HTTPError for an
  error status), \<open>r.json()\<close> returns the decoded body or raises (a body that is not JSON).
  \<open>requests.get(url, params=params, timeout=20)\<close> returns a response or raises (connection
  error, timeout).

  Standard output is given by what \<open>print\<close> does with a line: it returns, or it raises (a
  UnicodeEncodeError when the stream's encoding has no code for a character of the
  line).
\<close>

type_synonym stdout = "string \<Rightarrow> exn option"

record response =
  raise_for_status :: "exn option"
  json_body :: "exn + json"

type_synonym requests_get = "string \<Rightarrow> (string \<times> json) list \<Rightarrow> nat \<Rightarrow> exn + response"

definition ETHERSCAN_BASE :: string where
  "ETHERSCAN_BASE = ''https://api.etherscan.io/api''"

definition type_name :: "json \<Rightarrow> string" where
  \<comment> \<open>\<open>type(data).__name__\<close>\<close>
  "type_name data =
     (case data of
        JNull \<Rightarrow> ''NoneType'' | JBool b \<Rightarrow> ''bool'' | JInt i \<Rightarrow> ''int''
      | JFloat x \<Rightarrow> ''float'' | JStr s \<Rightarrow> ''str'' | JArr xs \<Rightarrow> ''list''
      | JObj items \<Rightarrow> ''dict'')"

definition no_get_method :: "json \<Rightarrow> exn" where
  \<comment> \<open>the AttributeError of \<open>data.get\<close> on a value that is no dict\<close>
  "no_get_method data =
     Exn ''AttributeError''
       ([CHR 0x27] @ type_name data @ [CHR 0x27] @
        '' object has no attribute '' @ [CHR 0x27] @ ''get'' @ [CHR 0x27])"

definition dict_get :: "json \<Rightarrow> string \<Rightarrow> json \<Rightarrow> exn + json" where
  \<comment> \<open>\<open>data.get(key, default)\<close>: only a dict has the method\<close>
  "dict_get data k d =
     (case data of
        JObj items \<Rightarrow> Inr (case map_of items k of Some v \<Rightarrow> v | None \<Rightarrow> d)
      | _ \<Rightarrow> Inl (no_get_method data))"

definition fetch_params ::
  "string \<Rightarrow> string \<Rightarrow> int \<Rightarrow> int \<Rightarrow> string \<Rightarrow> (string \<times> json) list" where
  "fetch_params address api_key startblock endblock sort_order =
     [(''module'', JStr ''account''),
      (''action'', JStr ''txlist''),
      (''address'', JStr address),
      (''startblock'', JInt startblock),
      (''endblock'', JInt endblock),
      (''sort'', JStr sort_order),
      (''apikey'', JStr api_key)]"

definition fetch_try :: "requests_get \<Rightarrow> (string \<times> json) list \<Rightarrow> exn + json" where
  \<comment> \<open>the body of the \<open>try\<close> block; \<open>Inl\<close> is an exception raised inside it\<close>
  "fetch_try get params =
     (case get ETHERSCAN_BASE params 20 of
        Inl e \<Rightarrow> Inl e
      | Inr r \<Rightarrow>
          (case raise_for_status r of
             Some e \<Rightarrow> Inl e
           | None \<Rightarrow>
               (case json_body r of
                  Inl e \<Rightarrow> Inl e
                | Inr data \<Rightarrow>
                    (case dict_get data ''status'' JNull of
                       Inl e \<Rightarrow> Inl e
                     | Inr status \<Rightarrow>
                         if status \<noteq> JStr ''1'' then Inr (JArr [])
                         else dict_get data ''result'' (JArr [])))))"

definition failure_line :: "exn \<Rightarrow> string" where
  \<comment> \<open>the text that the handler prints: the two arguments of \<open>print\<close>, separated by a
      space\<close>
  "failure_line e = warning_sign @ ''  Etherscan request failed: '' @ str e"

definition fetch_transactions ::
  "requests_get \<Rightarrow> stdout \<Rightarrow> string \<Rightarrow> string \<Rightarrow> int \<Rightarrow> int \<Rightarrow> string \<Rightarrow>
     string list \<times> (exn + json)" where
  \<comment> \<open>returns the lines printed and the outcome: \<open>Inr\<close> a returned value, \<open>Inl\<close> an
      exception that leaves the function. The handler catches what the \<open>try\<close> block
      raises; what \<open>print\<close> raises inside the handler is not caught.\<close>
  "fetch_transactions get print address api_key startblock endblock sort_order =
     (let params = fetch_params address api_key startblock endblock sort_order
      in case fetch_try get params of
           Inr v \<Rightarrow> ([], Inr v)
         | Inl e \<Rightarrow>
             (case print (failure_line e) of
                Some e' \<Rightarrow> ([], Inl e')
              | None \<Rightarrow> ([failure_line e], Inr (JArr []))))"

definition is_dict :: "json \<Rightarrow> bool" where
  \<comment> \<open>the decoded response is a JSON object\<close>
  "is_dict data = (case data of JObj items \<Rightarrow> True | _ \<Rightarrow> False)"

definition has_key :: "json \<Rightarrow> string \<Rightarrow> bool" where
  \<comment> \<open>the decoded response is a dict with this key\<close>
  "has_key data k = (case data of JObj items \<Rightarrow> map_of items k \<noteq> None | _ \<Rightarrow> False)"

definition status_field :: "json \<Rightarrow> json option" where
  \<comment> \<open>the value under "status", when the decoded response is a dict that has one\<close>
  "status_field data = (case data of JObj items \<Rightarrow> map_of items ''status'' | _ \<Rightarrow> None)"

definition result_field :: "json \<Rightarrow> json option" where
  \<comment> \<open>the value under "result", when the decoded response is a dict that has one\<close>
  "result_field data = (case data of JObj items \<Rightarrow> map_of items ''result'' | _ \<Rightarrow> None)"

definition request_failed :: "requests_get \<Rightarrow> (string \<times> json) list \<Rightarrow> bool" where
  \<comment> \<open>the failures of a request: the connection fails, the status is an HTTP error, the
      body is not JSON, or the decoded body is not an object whose "status" is the string
      "1" (the API reports its own errors, a bad key and a rate limit among them, with
      another status)\<close>
  "request_failed get params =
     (case get ETHERSCAN_BASE params 20 of
        Inl e \<Rightarrow> True
      | Inr r \<Rightarrow>
          (case raise_for_status r of
             Some e \<Rightarrow> True
           | None \<Rightarrow>
               (case json_body r of
                  Inl e \<Rightarrow> True
                | Inr data \<Rightarrow> status_field data \<noteq> Some (JStr ''1''))))"

definition passed_result :: "requests_get \<Rightarrow> (string \<times> json) list \<Rightarrow> json" where
  \<comment> \<open>what the decoded body of the response holds under "result", as it is; the empty
      list when there is no such entry\<close>
  "passed_result get params =
     (case get ETHERSCAN_BASE params 20 of
        Inl e \<Rightarrow> JArr []
      | Inr r \<Rightarrow>
          (case json_body r of
             Inl e \<Rightarrow> JArr []
           | Inr data \<Rightarrow> (case result_field data of Some v \<Rightarrow> v | None \<Rightarrow> JArr [])))"

definition ok_response :: "json \<Rightarrow> response" where
  \<comment> \<open>a response of the HTTP layer with a success status and this decoded body\<close>
  "ok_response data = \<lparr>raise_for_status = None, json_body = Inr data\<rparr>"

section \<open>app.py: one run of the script\<close>

text \<open>
  The script runs top to bottom once per interaction. Its inputs are the widgets' values;
  its outputs are the calls it makes to the user interface, in order. Calls that only lay
  the page out (title, headers, separators, captions) are left out. Everything the script
  calls outside this file is a field of the environment: the file system, the functions of
  \<open>sharkguard.core\<close> (whose file is not among the sources) and the pandas frame
  operations. The run is one in which the import of \<open>sharkguard.core\<close> succeeded; when
  it fails the script shows an error page and stops before any of the parts below. A call that can raise has an outcome of type \<open>exn + 'a\<close> or \<open>exn option\<close>.
  The four calls of \<open>load_model\<close> have an outcome each, so that a run may see any
  combination of successes and failures.
\<close>

record score_result =
  score :: real
  label :: string
  raw :: real

datatype arg = Str string | Num real

datatype 'df st_call =
    St_write "arg list"
  | St_success string
  | St_error string
  | St_warning string
  | St_info string
  | St_text string
  | St_subheader string
  | St_json feat
  | St_metric string real
  | St_dataframe 'df

datatype 'df ui_call = Main "'df st_call" | Sidebar "'df st_call" | Stdout string

record inputs =
  etherscan_key :: string
  wallet :: string
  use_sample :: bool
  reload_pressed :: bool
  uploaded :: "string option"
  train_pressed :: bool
  analyze :: bool

record ('m, 'df) env =
  model_path_exists :: bool
  sim_features_exists :: bool
  load_model_start :: "exn + 'm"
  load_model_reload :: "exn + 'm"
  write_bytes :: "string \<Rightarrow> exn option"
  load_model_upload :: "exn + 'm"
  read_csv :: "exn + 'df"
  train_and_persist_model :: "'df \<Rightarrow> exn option"
  load_model_train :: "exn + 'm"
  format_exc :: "exn \<Rightarrow> string"
  sample :: "'df \<Rightarrow> exn + 'df"
  etherscan_imported :: bool
  requests :: requests_get
  sys_stdout :: stdout
  txs_to_dataframe :: "json \<Rightarrow> exn + 'df"
  empty_dataframe :: 'df
  extract_wallet_features :: "'df \<Rightarrow> string \<Rightarrow> exn + feat"
  predict_score :: "'m \<Rightarrow> feat \<Rightarrow> exn + score_result"
  df_empty :: "'df \<Rightarrow> bool"
  df_head :: "'df \<Rightarrow> nat \<Rightarrow> 'df"

definition MODEL_PATH :: string where
  "MODEL_PATH = ''models/isolation_model.joblib''"

definition no_model_warning :: string where
  "no_model_warning = ''No model loaded. Train or upload a model to get a suspicion score.''"

definition model_at_start :: "('m, 'df) env \<Rightarrow> 'm option \<times> string" where
  \<comment> \<open>\<open>sg\<close> and \<open>model_status\<close> after the first \<open>try\<close>\<close>
  "model_at_start env =
     (if model_path_exists env then
        (case load_model_start env of
           Inr m \<Rightarrow> (Some m, ''Loaded from '' @ MODEL_PATH)
         | Inl e \<Rightarrow> (None, ''Failed to load ('' @ str e @ '')''))
      else (None, ''Not loaded''))"

definition reload_model ::
  "('m, 'df) env \<Rightarrow> inputs \<Rightarrow> 'm option \<Rightarrow> 'm option \<times> 'df ui_call list" where
  "reload_model env inp sg =
     (if reload_pressed inp then
        (if model_path_exists env then
           (case load_model_reload env of
              Inr m \<Rightarrow> (Some m, [Sidebar (St_success ''Model reloaded.'')])
            | Inl e \<Rightarrow> (sg, [Sidebar (St_error (''Reload failed: '' @ str e))]))
         else (sg, [Sidebar (St_warning ''No model file found. Train or upload one.'')]))
      else (sg, []))"

definition upload_model ::
  "('m, 'df) env \<Rightarrow> inputs \<Rightarrow> 'm option \<Rightarrow> 'm option \<times> 'df ui_call list" where
  "upload_model env inp sg =
     (case uploaded inp of
        None \<Rightarrow> (sg, [])
      | Some data \<Rightarrow>
          (case write_bytes env data of
             Some e \<Rightarrow>
               (sg, [Sidebar (St_error (''Failed to save/load uploaded model: '' @ str e))])
           | None \<Rightarrow>
               (case load_model_upload env of
                  Inr m \<Rightarrow> (Some m, [Sidebar (St_success ''Uploaded and loaded model.'')])
                | Inl e \<Rightarrow>
                    (sg, [Sidebar (St_error
                            (''Failed to save/load uploaded model: '' @ str e))]))))"

definition training_failed :: "('m, 'df) env \<Rightarrow> exn \<Rightarrow> 'df ui_call list" where
  "training_failed env e =
     [Sidebar (St_error (''Training failed: '' @ str e)), Sidebar (St_text (format_exc env e))]"

definition train_model ::
  "('m, 'df) env \<Rightarrow> inputs \<Rightarrow> 'm option \<Rightarrow> 'm option \<times> 'df ui_call list" where
  "train_model env inp sg =
     (if train_pressed inp then
        (if sim_features_exists env then
           (case read_csv env of
              Inl e \<Rightarrow> (sg, training_failed env e)
            | Inr df \<Rightarrow>
                (case train_and_persist_model env df of
                   Some e \<Rightarrow> (sg, training_failed env e)
                 | None \<Rightarrow>
                     (case load_model_train env of
                        Inl e \<Rightarrow> (sg, training_failed env e)
                      | Inr m \<Rightarrow>
                          (Some m,
                           [Sidebar (St_success
                              (''Model trained and saved to '' @ MODEL_PATH))]))))
         else (sg, [Sidebar (St_warning
                 ''Simulated features file not found. Run `python data/simulate.py` first.'')]))
      else (sg, []))"

definition fetch_step :: "('m, 'df) env \<Rightarrow> inputs \<Rightarrow> 'df ui_call list \<times> json" where
  \<comment> \<open>"Fetch transactions (may be empty)": the imported \<open>fetch_transactions\<close>, or the stub
      that returns \<open>[]\<close> when the import failed\<close>
  "fetch_step env inp =
     (if etherscan_key inp \<noteq> [] then
        (let (printed, r) =
               (if etherscan_imported env
                then fetch_transactions (requests env) (sys_stdout env) (wallet inp)
                       (etherscan_key inp)
                       0 99999999 ''asc''
                else ([], Inr (JArr [])))
         in case r of
              Inr txs \<Rightarrow> (map Stdout printed, txs)
            | Inl e \<Rightarrow>
                (map Stdout printed @ [Main (St_error (''Etherscan fetch failed: '' @ str e))],
                 JArr []))
      else
        ([Main (St_info (''No Etherscan key provided '' @ em_dash @
                  '' will not fetch on-chain transactions (empty).''))],
         JArr []))"

definition dataframe_step :: "('m, 'df) env \<Rightarrow> json \<Rightarrow> 'df ui_call list \<times> 'df" where
  "dataframe_step env txs =
     (case txs_to_dataframe env txs of
        Inr df \<Rightarrow> ([], df)
      | Inl e \<Rightarrow>
          ([Main (St_error (''Failed to convert transactions to DataFrame: '' @ str e))],
           empty_dataframe env))"

definition model_inference ::
  "('m, 'df) env \<Rightarrow> 'm option \<Rightarrow> feat \<Rightarrow> 'df ui_call list" where
  \<comment> \<open>"Model inference". The score is shown with three decimals; the output keeps the number.
      \<open>predict_score\<close> is a function of the model and the feature dictionary and leaves
      the dictionary as it is.\<close>
  "model_inference env sg feat =
     (case sg of
        None \<Rightarrow> [Main (St_warning no_model_warning)]
      | Some m \<Rightarrow>
          (case predict_score env m feat of
             Inr res \<Rightarrow>
               [Main (St_metric ''Suspicion Score (0 = normal, 1 = suspicious)'' (score res)),
                Main (St_write [Str ''Label:'', Str (label res)]),
                Main (St_write [Str ''Raw model score:'', Num (raw res)])]
           | Inl e \<Rightarrow>
               [Main (St_error (''Model prediction failed: '' @ str e)),
                Main (St_text (format_exc env e))]))"

definition heuristic_block :: "feat \<Rightarrow> 'df ui_call list" where
  \<comment> \<open>"Heuristic explanations"\<close>
  "heuristic_block feat =
     Main (St_subheader ''Heuristic signals'') #
     map (\<lambda>e. Main (St_write [Str ''- '', Str e])) (heuristic_signals feat)"

definition raw_transactions :: "('m, 'df) env \<Rightarrow> 'df \<Rightarrow> 'df ui_call list" where
  "raw_transactions env df =
     Main (St_subheader ''Raw transactions (first 20)'') #
     (if \<not> df_empty env df then [Main (St_dataframe (df_head env df 20))]
      else [Main (St_write [Str ''No transactions to show (empty).''])])"

definition scoring :: "('m, 'df) env \<Rightarrow> 'm option \<Rightarrow> feat \<Rightarrow> 'df ui_call list" where
  \<comment> \<open>the two scoring paths, in the order of the script\<close>
  "scoring env sg feat = model_inference env sg feat @ heuristic_block feat"

definition analyze_wallet ::
  "('m, 'df) env \<Rightarrow> inputs \<Rightarrow> 'm option \<Rightarrow> 'df ui_call list \<times> exn option" where
  \<comment> \<open>the branch with a wallet address; \<open>extract_wallet_features\<close> is called outside any
      \<open>try\<close>, so its exception ends the run\<close>
  "analyze_wallet env inp sg =
     (let (out1, txs) = fetch_step env inp;
          (out2, df) = dataframe_step env txs
      in case extract_wallet_features env df (wallet inp) of
           Inl e \<Rightarrow> (out1 @ out2, Some e)
         | Inr feat \<Rightarrow>
             (out1 @ out2 @
              [Main (St_subheader ''Extracted features''), Main (St_json feat)] @
              scoring env sg feat @ raw_transactions env df,
              None))"

definition extracted :: "('m, 'df) env \<Rightarrow> inputs \<Rightarrow> exn + feat" where
  \<comment> \<open>the outcome of the call of \<open>extract_wallet_features\<close> in a wallet analysis\<close>
  "extracted env inp =
     extract_wallet_features env (snd (dataframe_step env (snd (fetch_step env inp))))
       (wallet inp)"

definition on_analyze ::
  "('m, 'df) env \<Rightarrow> inputs \<Rightarrow> 'm option \<Rightarrow> 'df ui_call list \<times> exn option" where
  \<comment> \<open>"When Analyze is pressed"\<close>
  "on_analyze env inp sg =
     (if analyze inp then
        (if use_sample inp then
           (if sim_features_exists env then
              (case read_csv env of
                 Inl e \<Rightarrow> ([], Some e)
               | Inr df_feats \<Rightarrow>
                   (let out = [Main (St_success
                          (''Loaded simulated features '' @ em_dash @
                           '' showing a random sample''))]
                    in case sample env df_feats of
                         Inl e \<Rightarrow> (out, Some e)
                       | Inr row \<Rightarrow> (out @ [Main (St_dataframe row)], None)))
            else ([Main (St_error
                     ''Simulated features file not present. Run: python data/simulate.py'')],
                  None))
         else if wallet inp = [] then
           ([Main (St_error
               ''Please enter a wallet address (0x...) or enable 'Use simulated sample features'.'')],
            None)
         else analyze_wallet env inp sg)
      else ([], None))"

definition model_controls ::
  "('m, 'df) env \<Rightarrow> inputs \<Rightarrow> 'm option \<times> 'df ui_call list" where
  \<comment> \<open>the sidebar's model section: \<open>sg\<close> as the analysis will see it\<close>
  "model_controls env inp =
     (let (sg, model_status) = model_at_start env;
          out0 = [Sidebar (St_write [Str model_status])];
          (sg, out1) = reload_model env inp sg;
          (sg, out2) = upload_model env inp sg;
          (sg, out3) = train_model env inp sg
      in (sg, out0 @ out1 @ out2 @ out3))"

definition script :: "('m, 'df) env \<Rightarrow> inputs \<Rightarrow> 'df ui_call list \<times> exn option" where
  \<comment> \<open>the outputs of one run, and the exception that ended it, if one did\<close>
  "script env inp =
     (let (sg, out) = model_controls env inp;
          (out', raised) = on_analyze env inp sg
      in (out @ out', raised))"

fun flag_of :: "'df ui_call \<Rightarrow> string option" where
  "flag_of (Main (St_write [Str bullet, Str e])) = (if bullet = ''- '' then Some e else None)"
| "flag_of _ = None"

fun written_flags :: "'df ui_call list \<Rightarrow> string list" where
  \<comment> \<open>the heuristic flags a run has written, in order\<close>
  "written_flags [] = []"
| "written_flags (c # cs) =
     (case flag_of c of Some e \<Rightarrow> e # written_flags cs | None \<Rightarrow> written_flags cs)"

fun is_metric :: "'df ui_call \<Rightarrow> bool" where
  "is_metric (Main (St_metric _ _)) = True"
| "is_metric _ = False"

section \<open>The feature extractor, from the specification\<close>

text \<open>
  Modelled from the spec: \<open>extract_wallet_features\<close> and the transaction table live in
  \<open>sharkguard/core.py\<close>, which is not among the sources. The definitions of this
  section follow sections 3 and 4.2 of the specification word by word: a transaction
  (timestamp in seconds, sender, receiver, value, nonce), a TransactionSet as a list, and
  the four features. The specification leaves the base of the logarithm open; the natural
  logarithm is taken here.
\<close>

record transaction =
  timestamp :: int
  sender :: string
  receiver :: string
  tx_value :: real
  nonce :: nat

definition involving :: "string \<Rightarrow> transaction list \<Rightarrow> transaction list" where
  \<comment> \<open>Modelled from the spec: the transactions involving the wallet, as sender or receiver\<close>
  "involving w txs = filter (\<lambda>t. sender t = w \<or> receiver t = w) txs"

definition counterparty :: "string \<Rightarrow> transaction \<Rightarrow> string" where
  \<comment> \<open>Modelled from the spec: the address on the other side of the wallet\<close>
  "counterparty w t = (if sender t = w then receiver t else sender t)"

definition tx_count :: "transaction list \<Rightarrow> string \<Rightarrow> nat" where
  \<comment> \<open>Modelled from the spec: total number of transactions involving the wallet\<close>
  "tx_count txs w = length (involving w txs)"

definition span_days :: "transaction list \<Rightarrow> real" where
  \<comment> \<open>Modelled from the spec: the span in days between the earliest and the latest
      transaction timestamp\<close>
  "span_days txs =
     (case map timestamp txs of
        [] \<Rightarrow> 0
      | t # ts \<Rightarrow> real_of_int (fold max ts t - fold min ts t) / 86400)"

definition tx_freq_per_day :: "transaction list \<Rightarrow> string \<Rightarrow> real" where
  \<comment> \<open>Modelled from the spec: tx_count divided by the span in days; 0 if the span is zero
      or there is at most one transaction\<close>
  "tx_freq_per_day txs w =
     (if length txs \<le> 1 \<or> span_days txs = 0 then 0
      else real (tx_count txs w) / span_days txs)"

definition repeated_ratio :: "transaction list \<Rightarrow> string \<Rightarrow> real" where
  \<comment> \<open>Modelled from the spec: 1 - (count of distinct counterparties / tx_count); 0 when
      tx_count is 0\<close>
  "repeated_ratio txs w =
     (if tx_count txs w = 0 then 0
      else 1 - real (length (remdups (map (counterparty w) (involving w txs))))
               / real (tx_count txs w))"

definition hour_of_day :: "transaction \<Rightarrow> int" where
  \<comment> \<open>Modelled from the spec: transaction hour-of-day (0-23)\<close>
  "hour_of_day t = (timestamp t div 3600) mod 24"

definition hour_entropy :: "transaction list \<Rightarrow> real" where
  \<comment> \<open>Modelled from the spec: Shannon entropy of the distribution of the hour-of-day across
      all transactions; the sentinel 10 when there are zero or one transactions\<close>
  "hour_entropy txs =
     (if length txs \<le> 1 then 10
      else
        (let hours = map hour_of_day txs;
             p = (\<lambda>h. real (count_list hours h) / real (length hours))
         in - (\<Sum>h\<leftarrow>remdups hours. p h * ln (p h))))"

definition extract_features :: "transaction list \<Rightarrow> string \<Rightarrow> feat" where
  \<comment> \<open>Modelled from the spec: \<open>extract(transactions, wallet_address) -> FeatureVector\<close>\<close>
  "extract_features txs w =
     [''tx_count'' \<mapsto> real (tx_count txs w),
      ''tx_freq_per_day'' \<mapsto> tx_freq_per_day txs w,
      ''repeated_ratio'' \<mapsto> repeated_ratio txs w,
      ''hour_entropy'' \<mapsto> hour_entropy txs]"

definition schema :: "string set" where
  \<comment> \<open>Modelled from the spec: the keys of the fixed schema that the specification names\<close>
  "schema = {''tx_count'', ''tx_freq_per_day'', ''repeated_ratio'', ''hour_entropy''}"

section \<open>Concrete inputs\<close>

definition all_rules :: feat where
  "all_rules =
     [''tx_count'' \<mapsto> 2, ''tx_freq_per_day'' \<mapsto> 60, ''repeated_ratio'' \<mapsto> 7 / 10,
      ''hour_entropy'' \<mapsto> 1 / 2]"

definition at_thresholds :: feat where
  "at_thresholds =
     [''tx_count'' \<mapsto> 3, ''tx_freq_per_day'' \<mapsto> 50, ''repeated_ratio'' \<mapsto> 6 / 10,
      ''hour_entropy'' \<mapsto> 1]"

definition only_frequency :: feat where
  "only_frequency = [''tx_count'' \<mapsto> 500, ''tx_freq_per_day'' \<mapsto> 100]"

definition utf8_stdout :: stdout where
  \<comment> \<open>a stream that takes every line\<close>
  "utf8_stdout = (\<lambda>line. None)"

definition encode_error :: exn where
  "encode_error = Exn ''UnicodeEncodeError'' ''codec can't encode character''"

definition ascii_stdout :: stdout where
  \<comment> \<open>a stream whose encoding is ASCII: a line with a byte above 127 is refused\<close>
  "ascii_stdout =
     (\<lambda>line. if list_all (\<lambda>c. of_char c < (128 :: nat)) line then None else Some encode_error)"

definition unreachable :: requests_get where
  "unreachable = (\<lambda>url params timeout. Inl (Exn ''ConnectionError'' ''unreachable''))"

definition respond :: "json \<Rightarrow> requests_get" where
  "respond data = (\<lambda>url params timeout. Inr (ok_response data))"

definition rate_limited :: json where
  "rate_limited =
     JObj [(''status'', JStr ''0''), (''message'', JStr ''NOTOK''),
           (''result'', JStr ''Max rate limit reached'')]"

definition no_result_key :: json where
  "no_result_key = JObj [(''status'', JStr ''1''), (''message'', JStr ''OK'')]"

definition no_transactions :: json where
  "no_transactions =
     JObj [(''status'', JStr ''1''), (''message'', JStr ''OK''), (''result'', JArr [])]"

definition bare_list :: json where
  \<comment> \<open>a body that is JSON and no object\<close>
  "bare_list = JArr []"

definition null_result :: json where
  "null_result =
     JObj [(''status'', JStr ''1''), (''message'', JStr ''OK''), (''result'', JNull)]"

definition one_transfer :: json where
  "one_transfer =
     JObj [(''status'', JStr ''1''), (''message'', JStr ''OK''),
           (''result'', JArr [JObj [(''from'', JStr ''0xabc''), (''to'', JStr ''0xdef'')]])]"

definition corrupt :: exn where
  "corrupt = Exn ''ValueError'' ''corrupt model file''"

definition not_fitted :: exn where
  "not_fitted = Exn ''RuntimeError'' ''model is not fitted''"

definition example_env :: "(unit, json) env" where
  \<comment> \<open>a run in which the model file exists and cannot be loaded; the frame is the list of
      transactions itself\<close>
  "example_env =
     \<lparr>model_path_exists = True, sim_features_exists = False,
      load_model_start = Inl corrupt, load_model_reload = Inl corrupt,
      write_bytes = (\<lambda>data. None), load_model_upload = Inl corrupt,
      read_csv = Inl (Exn ''FileNotFoundError'' ''data/simulated_features.csv''),
      train_and_persist_model = (\<lambda>df. None), load_model_train = Inl corrupt,
      format_exc = str, sample = Inr, etherscan_imported = True,
      requests = unreachable, sys_stdout = utf8_stdout,
      txs_to_dataframe = Inr, empty_dataframe = JArr [],
      extract_wallet_features = (\<lambda>df w. Inr default_features),
      predict_score = (\<lambda>m feat. Inl not_fitted),
      df_empty = (\<lambda>df. df = JArr []), df_head = (\<lambda>df n. df)\<rparr>"

definition example_inputs :: inputs where
  "example_inputs =
     \<lparr>etherscan_key = [], wallet = ''0xabc'', use_sample = False, reload_pressed = True,
      uploaded = None, train_pressed = False, analyze = True\<rparr>"

definition one_tx :: transaction where
  "one_tx =
     \<lparr>timestamp = 1700000000, sender = ''0xabc'', receiver = ''0xdef'', tx_value = 1,
      nonce = 0\<rparr>"

section \<open>Properties of the heuristic signals\<close>

lemma flags_distinct:
  "distinct [flag_few_tx, flag_high_freq, flag_repeated, flag_low_entropy, flag_none]"
  by (simp add: flag_few_tx_def flag_high_freq_def flag_repeated_def flag_low_entropy_def
      flag_none_def)

lemma flag_ne:
  "flag_few_tx \<noteq> flag_high_freq" "flag_few_tx \<noteq> flag_repeated"
  "flag_few_tx \<noteq> flag_low_entropy" "flag_few_tx \<noteq> flag_none"
  "flag_high_freq \<noteq> flag_repeated" "flag_high_freq \<noteq> flag_low_entropy"
  "flag_high_freq \<noteq> flag_none" "flag_repeated \<noteq> flag_low_entropy"
  "flag_repeated \<noteq> flag_none" "flag_low_entropy \<noteq> flag_none"
  using flags_distinct by auto

lemma heuristic_signals_fired:
  "heuristic_signals feat =
     (if fired (code_rules feat) = [] then [flag_none] else fired (code_rules feat))"
  by (simp add: heuristic_signals_def fired_def code_rules_def Let_def)

lemma low_entropy_flag_iff:
  "flag_low_entropy \<in> set (heuristic_signals feat) \<longleftrightarrow>
   feat_get feat ''hour_entropy'' 10 < 1"
  using flag_ne flag_ne[symmetric]
  by (simp add: heuristic_signals_fired fired_def code_rules_def)

lemma feat_get_with_defaults:
  "feat_get (with_defaults feat) ''tx_count'' 0 = feat_get feat ''tx_count'' 0"
  "feat_get (with_defaults feat) ''tx_freq_per_day'' 0 = feat_get feat ''tx_freq_per_day'' 0"
  "feat_get (with_defaults feat) ''repeated_ratio'' 0 = feat_get feat ''repeated_ratio'' 0"
  "feat_get (with_defaults feat) ''hour_entropy'' 10 = feat_get feat ''hour_entropy'' 10"
  by (simp_all add: feat_get_def with_defaults_def default_features_def map_add_def
      split: option.splits)

text \<open>
  C1, as the specification states it: each fired rule produces the flag text of the
  specification's table. The source writes other texts. For the feature vector of an
  empty wallet the first rule fires, and the output is the source's sentence, not the
  table's.
\<close>

theorem spec_flag_text_counterexample:
  "feat_get default_features ''tx_count'' 0 < 3 \<and>
   heuristic_signals default_features = [flag_few_tx] \<and>
   spec_flag_few_tx \<notin> set (heuristic_signals default_features) \<and>
   heuristic_signals default_features \<noteq> fired (spec_rules default_features)"
  by (simp add: heuristic_signals_def feat_get_def fired_def spec_rules_def
      default_features_def spec_flag_few_tx_def flag_few_tx_def)

text \<open>
  C1, amended: for every feature dictionary the four rules are evaluated, each flag is in
  the output exactly when its threshold condition holds (tx_count < 3, tx_freq_per_day >
  50, repeated_ratio > 0.6, hour_entropy < 1.0), with the texts of the source, and the
  output lists its entries in the fixed order of the table, each once.
\<close>

theorem heuristic_rules:
  "(flag_few_tx \<in> set (heuristic_signals feat) \<longleftrightarrow> feat_get feat ''tx_count'' 0 < 3) \<and>
   (flag_high_freq \<in> set (heuristic_signals feat) \<longleftrightarrow>
      feat_get feat ''tx_freq_per_day'' 0 > 50) \<and>
   (flag_repeated \<in> set (heuristic_signals feat) \<longleftrightarrow>
      feat_get feat ''repeated_ratio'' 0 > 6 / 10) \<and>
   (flag_low_entropy \<in> set (heuristic_signals feat) \<longleftrightarrow>
      feat_get feat ''hour_entropy'' 10 < 1) \<and>
   heuristic_signals feat =
     filter (\<lambda>s. s \<in> set (heuristic_signals feat))
       [flag_few_tx, flag_high_freq, flag_repeated, flag_low_entropy, flag_none]"
  using flag_ne flag_ne[symmetric]
  by (simp add: heuristic_signals_fired fired_def code_rules_def)

theorem heuristic_rules_witness:
  "feat_get all_rules ''tx_count'' 0 < 3 \<and> flag_few_tx \<in> set (heuristic_signals all_rules) \<and>
   feat_get only_frequency ''tx_count'' 0 \<ge> 3 \<and>
   flag_few_tx \<notin> set (heuristic_signals only_frequency) \<and>
   heuristic_signals all_rules =
     [flag_few_tx, flag_high_freq, flag_repeated, flag_low_entropy] \<and>
   heuristic_signals only_frequency = [flag_high_freq]"
proof -
  have a: "feat_get all_rules ''tx_count'' 0 < 3"
    by (simp add: feat_get_def all_rules_def)
  have b: "feat_get only_frequency ''tx_count'' 0 \<ge> 3"
    by (simp add: feat_get_def only_frequency_def)
  from a have c: "flag_few_tx \<in> set (heuristic_signals all_rules)"
    using heuristic_rules[of all_rules] by blast
  from b have d: "flag_few_tx \<notin> set (heuristic_signals only_frequency)"
    using heuristic_rules[of only_frequency] by auto
  have e: "heuristic_signals all_rules =
      [flag_few_tx, flag_high_freq, flag_repeated, flag_low_entropy]"
    by (simp add: heuristic_signals_def feat_get_def all_rules_def)
  have f: "heuristic_signals only_frequency = [flag_high_freq]"
    by (simp add: heuristic_signals_def feat_get_def only_frequency_def)
  from a b c d e f show ?thesis by blast
qed

text \<open>
  C2: on a feature vector on which none of the four conditions holds (tx_count >= 3,
  tx_freq_per_day <= 50, repeated_ratio <= 0.6, hour_entropy >= 1.0) the output has
  exactly one entry, the "no flags" entry.
\<close>

theorem no_rule_fires:
  assumes "3 \<le> feat_get feat ''tx_count'' 0"
    and "feat_get feat ''tx_freq_per_day'' 0 \<le> 50"
    and "feat_get feat ''repeated_ratio'' 0 \<le> 6 / 10"
    and "1 \<le> feat_get feat ''hour_entropy'' 10"
  shows "heuristic_signals feat = [flag_none]"
  using assms by (simp add: heuristic_signals_def)

theorem no_rule_fires_witness:
  "3 \<le> feat_get at_thresholds ''tx_count'' 0 \<and>
   feat_get at_thresholds ''tx_freq_per_day'' 0 \<le> 50 \<and>
   feat_get at_thresholds ''repeated_ratio'' 0 \<le> 6 / 10 \<and>
   1 \<le> feat_get at_thresholds ''hour_entropy'' 10 \<and>
   heuristic_signals at_thresholds = [flag_none]"
  using no_rule_fires[of at_thresholds]
  by (simp add: feat_get_def at_thresholds_def)

text \<open>
  C9: the evaluation is defined on every feature dictionary, also one that lacks keys of
  the schema: a missing tx_count, tx_freq_per_day or repeated_ratio counts as 0 and a
  missing hour_entropy as 10, so the result is that of the dictionary completed with
  these defaults, and the empty dictionary yields the single "very few transactions"
  flag.
\<close>

theorem heuristic_partial:
  "heuristic_signals feat = heuristic_signals (with_defaults feat) \<and>
   schema \<subseteq> dom (with_defaults feat) \<and>
   heuristic_signals Map.empty = [flag_few_tx]"
  by (simp add: heuristic_signals_def feat_get_with_defaults)
     (simp add: feat_get_def with_defaults_def default_features_def schema_def)

theorem heuristic_partial_witness:
  "only_frequency ''hour_entropy'' = None \<and>
   with_defaults only_frequency ''hour_entropy'' = Some 10 \<and>
   heuristic_signals only_frequency = [flag_high_freq] \<and>
   heuristic_signals (with_defaults only_frequency) = [flag_high_freq]"
  using heuristic_partial[of only_frequency]
  by (simp add: heuristic_signals_def feat_get_def only_frequency_def with_defaults_def
      default_features_def)

section \<open>Properties of fetch_transactions\<close>

text \<open>
  Interrupts of the process (KeyboardInterrupt, SystemExit), which are no \<open>Exception\<close>,
  are outside the model.
\<close>

lemma fetch_try_failed:
  "request_failed get params \<Longrightarrow>
   fetch_try get params = Inr (JArr []) \<or> isl (fetch_try get params)"
  by (auto simp: request_failed_def fetch_try_def dict_get_def status_field_def
      split: sum.splits option.splits json.splits)

lemma fetch_try_passed:
  "\<not> request_failed get params \<Longrightarrow> fetch_try get params = Inr (passed_result get params)"
  by (auto simp: request_failed_def fetch_try_def dict_get_def status_field_def
      passed_result_def result_field_def split: sum.splits option.splits json.splits)

text \<open>
  Where the stream takes every line, the function returns: the empty list when the
  request raises, the status check raises, the body is not JSON, or the decoded body is
  not an object whose "status" is the string "1"; otherwise what the body holds under
  "result", and the empty list when there is no such entry.
\<close>

lemma fetch_outcome_when_print_returns:
  assumes "\<And>line. print line = None"
  shows "snd (fetch_transactions get print address api_key startblock endblock sort_order) =
     Inr (if request_failed get (fetch_params address api_key startblock endblock sort_order)
          then JArr []
          else passed_result get (fetch_params address api_key startblock endblock sort_order))"
  using fetch_try_failed[of get "fetch_params address api_key startblock endblock sort_order"]
    fetch_try_passed[of get "fetch_params address api_key startblock endblock sort_order"]
    assms
  by (auto simp: fetch_transactions_def Let_def split: sum.splits)

text \<open>
  C3: fetch_transactions is to return the empty list on every failure and never to raise,
  and its docstring promises a list. The source misses both. A response that reports
  status "1" is not looked at any further, so for a body whose result is null the caller
  receives \<open>None\<close>, where every other path returns a list. And the handler that turns a
  failure into the empty list prints a line first: when the stream cannot encode the
  warning sign of that line, the exception of \<open>print\<close> leaves the function.
\<close>

theorem fetch_transactions_defects:
  "fetch_transactions (respond null_result) utf8_stdout ''0xabc'' ''KEY'' 0 99999999 ''asc''
     = ([], Inr JNull) \<and>
   fetch_transactions unreachable ascii_stdout ''0xabc'' ''KEY'' 0 99999999 ''asc''
     = ([], Inl encode_error)"
  by (simp add: fetch_transactions_def fetch_try_def respond_def ok_response_def
      null_result_def dict_get_def unreachable_def ascii_stdout_def failure_line_def
      warning_sign_def)

text \<open>
  C10: when the request itself succeeded, fetch_transactions returns the empty list
  whenever the "status" of the response is not the string "1" or the response has no
  "result" entry. That is the value it returns for a successful response with no
  transactions, so the caller cannot tell the two apart. For a response that is a JSON
  object this holds whatever the stream does; a decoded body that is no object at all
  goes through the handler, and the stream has to take the handler's line.
\<close>

theorem fetch_empty_on_api_error:
  assumes "get ETHERSCAN_BASE (fetch_params address api_key startblock endblock sort_order) 20
             = Inr (ok_response data)"
    and "status_field data \<noteq> Some (JStr ''1'') \<or> \<not> has_key data ''result''"
    and "is_dict data \<or> print (failure_line (no_get_method data)) = None"
  shows "snd (fetch_transactions get print address api_key startblock endblock sort_order)
           = Inr (JArr []) \<and>
         snd (fetch_transactions get print address api_key startblock endblock sort_order) =
         snd (fetch_transactions (respond no_transactions) print
                address api_key startblock endblock sort_order)"
  using assms
  by (auto simp: fetch_transactions_def fetch_try_def ok_response_def dict_get_def
      status_field_def has_key_def is_dict_def respond_def no_transactions_def Let_def
      split: sum.splits option.splits json.splits)

theorem fetch_empty_on_api_error_witness:
  "respond rate_limited ETHERSCAN_BASE (fetch_params ''0xabc'' ''KEY'' 0 99999999 ''asc'') 20
     = Inr (ok_response rate_limited) \<and>
   status_field rate_limited \<noteq> Some (JStr ''1'') \<and> is_dict rate_limited \<and>
   fetch_transactions (respond rate_limited) ascii_stdout ''0xabc'' ''KEY'' 0 99999999 ''asc''
     = ([], Inr (JArr [])) \<and>
   respond no_result_key ETHERSCAN_BASE (fetch_params ''0xabc'' ''KEY'' 0 99999999 ''asc'') 20
     = Inr (ok_response no_result_key) \<and>
   \<not> has_key no_result_key ''result'' \<and> is_dict no_result_key \<and>
   fetch_transactions (respond no_result_key) ascii_stdout ''0xabc'' ''KEY'' 0 99999999 ''asc''
     = ([], Inr (JArr [])) \<and>
   respond bare_list ETHERSCAN_BASE (fetch_params ''0xabc'' ''KEY'' 0 99999999 ''asc'') 20
     = Inr (ok_response bare_list) \<and>
   \<not> has_key bare_list ''result'' \<and>
   utf8_stdout (failure_line (no_get_method bare_list)) = None \<and>
   snd (fetch_transactions (respond bare_list) utf8_stdout ''0xabc'' ''KEY'' 0 99999999 ''asc'')
     = Inr (JArr [])"
  using fetch_empty_on_api_error[of "respond rate_limited" "''0xabc''" "''KEY''" 0 99999999
      "''asc''" rate_limited ascii_stdout]
    fetch_empty_on_api_error[of "respond no_result_key" "''0xabc''" "''KEY''" 0 99999999
      "''asc''" no_result_key ascii_stdout]
    fetch_empty_on_api_error[of "respond bare_list" "''0xabc''" "''KEY''" 0 99999999
      "''asc''" bare_list utf8_stdout]
  by (simp add: status_field_def has_key_def is_dict_def fetch_transactions_def fetch_try_def
      respond_def ok_response_def rate_limited_def no_result_key_def bare_list_def
      utf8_stdout_def dict_get_def)

section \<open>Properties of the script\<close>

lemma written_flags_append: "written_flags (xs @ ys) = written_flags xs @ written_flags ys"
  by (induction xs) (simp_all split: option.splits)

lemma written_flags_model_inference: "written_flags (model_inference env sg feat) = []"
  by (simp add: model_inference_def split: option.splits sum.splits)

lemma written_flags_bullets:
  "written_flags (map (\<lambda>e. Main (St_write [Str ''- '', Str e])) es) = es"
  by (induction es) simp_all

lemma written_flags_heuristic_block:
  "written_flags (heuristic_block feat) = heuristic_signals feat"
  using written_flags_bullets[of "heuristic_signals feat"]
  by (simp add: heuristic_block_def)

lemma written_flags_scoring: "written_flags (scoring env sg feat) = heuristic_signals feat"
  by (simp add: scoring_def written_flags_append written_flags_model_inference
      written_flags_heuristic_block)

lemma written_flags_stdout: "written_flags (map Stdout xs) = []"
  by (induction xs) simp_all

lemma fetch_step_no_flags: "written_flags (fst (fetch_step env inp)) = []"
  by (simp add: fetch_step_def Let_def written_flags_append written_flags_stdout
      split: prod.splits sum.splits)

lemma dataframe_step_no_flags: "written_flags (fst (dataframe_step env txs)) = []"
  by (simp add: dataframe_step_def split: sum.splits)

lemma raw_transactions_no_flags: "written_flags (raw_transactions env df) = []"
  by (simp add: raw_transactions_def)

lemma written_flags_analyze_wallet:
  "written_flags (fst (analyze_wallet env inp sg)) =
     (case extracted env inp of Inl e \<Rightarrow> [] | Inr feat \<Rightarrow> heuristic_signals feat)"
proof -
  obtain out1 txs where f: "fetch_step env inp = (out1, txs)"
    by (cases "fetch_step env inp")
  obtain out2 df where d: "dataframe_step env txs = (out2, df)"
    by (cases "dataframe_step env txs")
  have n1: "written_flags out1 = []" using fetch_step_no_flags[of env inp] f by simp
  have n2: "written_flags out2 = []" using dataframe_step_no_flags[of env txs] d by simp
  show ?thesis
    by (simp add: analyze_wallet_def extracted_def f d written_flags_append n1 n2
        written_flags_scoring raw_transactions_no_flags split: sum.splits)
qed

lemma fetch_step_predict_score:
  "fetch_step (env\<lparr>predict_score := p\<rparr>) inp = fetch_step env inp"
  by (simp add: fetch_step_def)

lemma dataframe_step_predict_score:
  "dataframe_step (env\<lparr>predict_score := p\<rparr>) txs = dataframe_step env txs"
  by (simp add: dataframe_step_def split: sum.splits)

lemma extracted_predict_score:
  "extracted (env\<lparr>predict_score := p\<rparr>) inp = extracted env inp"
  by (simp add: extracted_def fetch_step_predict_score dataframe_step_predict_score)

text \<open>
  C4: the flags a run writes are a function of the feature dictionary alone. Whatever the
  state of the model (none loaded, one whose prediction succeeds, one whose prediction
  raises), the flags written after the model inference are the heuristic signals of the
  dictionary, so two runs on the same dictionary write the same flags; and a wallet
  analysis writes the same flags whatever model it is given and whatever the prediction
  does.
\<close>

theorem flags_independent_of_model:
  "written_flags (scoring env sg feat) = heuristic_signals feat \<and>
   written_flags (scoring env sg feat) = written_flags (scoring env' sg' feat) \<and>
   written_flags (fst (analyze_wallet env inp sg)) =
   written_flags (fst (analyze_wallet (env\<lparr>predict_score := p\<rparr>) inp sg'))"
  by (simp add: written_flags_scoring written_flags_analyze_wallet extracted_predict_score)

theorem flags_independent_of_model_witness:
  "scoring example_env None only_frequency =
     [Main (St_warning no_model_warning), Main (St_subheader ''Heuristic signals''),
      Main (St_write [Str ''- '', Str flag_high_freq])] \<and>
   scoring example_env (Some ()) only_frequency =
     [Main (St_error ''Model prediction failed: model is not fitted''),
      Main (St_text ''model is not fitted''), Main (St_subheader ''Heuristic signals''),
      Main (St_write [Str ''- '', Str flag_high_freq])] \<and>
   written_flags (scoring example_env None only_frequency) =
   written_flags (scoring example_env (Some ()) only_frequency)"
proof -
  have a: "scoring example_env None only_frequency =
     [Main (St_warning no_model_warning), Main (St_subheader ''Heuristic signals''),
      Main (St_write [Str ''- '', Str flag_high_freq])]"
    by (simp add: scoring_def model_inference_def heuristic_block_def heuristic_signals_def
        feat_get_def only_frequency_def)
  have b: "scoring example_env (Some ()) only_frequency =
     [Main (St_error ''Model prediction failed: model is not fitted''),
      Main (St_text ''model is not fitted''), Main (St_subheader ''Heuristic signals''),
      Main (St_write [Str ''- '', Str flag_high_freq])]"
    by (simp add: scoring_def model_inference_def heuristic_block_def heuristic_signals_def
        feat_get_def only_frequency_def example_env_def not_fitted_def)
  have c: "written_flags (scoring example_env None only_frequency) =
      written_flags (scoring example_env (Some ()) only_frequency)"
    using flags_independent_of_model[of example_env None only_frequency example_env "Some ()"]
    by blast
  from a b c show ?thesis by blast
qed

lemma model_controls_load_failed:
  assumes "model_path_exists env" and "load_model_start env = Inl e"
    and "isl (load_model_reload env)" and "isl (load_model_upload env)"
    and "isl (load_model_train env)"
  shows "fst (model_controls env inp) = None"
    and "Sidebar (St_write [Str (''Failed to load ('' @ str e @ '')'')])
           \<in> set (snd (model_controls env inp))"
    and "written_flags (snd (model_controls env inp)) = []"
    and "\<forall>c \<in> set (snd (model_controls env inp)). \<not> is_metric c"
  using assms
  by (auto simp: model_controls_def model_at_start_def reload_model_def upload_model_def
      train_model_def training_failed_def Let_def isl_def
      split: option.splits sum.splits prod.splits)

lemma fetch_step_no_metric: "c \<in> set (fst (fetch_step env inp)) \<Longrightarrow> \<not> is_metric c"
  by (auto simp: fetch_step_def Let_def split: prod.splits sum.splits if_splits)

lemma dataframe_step_no_metric:
  "c \<in> set (fst (dataframe_step env txs)) \<Longrightarrow> \<not> is_metric c"
  by (auto simp: dataframe_step_def split: sum.splits)

lemma raw_transactions_no_metric: "c \<in> set (raw_transactions env df) \<Longrightarrow> \<not> is_metric c"
  by (auto simp: raw_transactions_def split: if_splits)

lemma heuristic_block_no_metric: "c \<in> set (heuristic_block feat) \<Longrightarrow> \<not> is_metric c"
  by (auto simp: heuristic_block_def)

lemma analyze_wallet_no_model:
  assumes "extracted env inp = Inr feat"
  shows "snd (analyze_wallet env inp None) = None"
    and "Main (St_json feat) \<in> set (fst (analyze_wallet env inp None))"
    and "Main (St_warning no_model_warning) \<in> set (fst (analyze_wallet env inp None))"
    and "written_flags (fst (analyze_wallet env inp None)) = heuristic_signals feat"
    and "\<forall>c \<in> set (fst (analyze_wallet env inp None)). \<not> is_metric c"
proof -
  obtain out1 txs where f: "fetch_step env inp = (out1, txs)"
    by (cases "fetch_step env inp")
  obtain out2 df where d: "dataframe_step env txs = (out2, df)"
    by (cases "dataframe_step env txs")
  from assms f d have x: "extract_wallet_features env df (wallet inp) = Inr feat"
    by (simp add: extracted_def)
  have a: "analyze_wallet env inp None =
      (out1 @ out2 @ [Main (St_subheader ''Extracted features''), Main (St_json feat)] @
       scoring env None feat @ raw_transactions env df, None)"
    by (simp add: analyze_wallet_def f d x)
  have s: "scoring env None feat = Main (St_warning no_model_warning) # heuristic_block feat"
    by (simp add: scoring_def model_inference_def)
  have n1: "written_flags out1 = []" using fetch_step_no_flags[of env inp] f by simp
  have n2: "written_flags out2 = []" using dataframe_step_no_flags[of env txs] d by simp
  have m1: "\<forall>c \<in> set out1. \<not> is_metric c" using fetch_step_no_metric[of _ env inp] f by simp
  have m2: "\<forall>c \<in> set out2. \<not> is_metric c"
    using dataframe_step_no_metric[of _ env txs] d by simp
  show "snd (analyze_wallet env inp None) = None" by (simp add: a)
  show "Main (St_json feat) \<in> set (fst (analyze_wallet env inp None))" by (simp add: a)
  show "Main (St_warning no_model_warning) \<in> set (fst (analyze_wallet env inp None))"
    by (simp add: a s)
  show "written_flags (fst (analyze_wallet env inp None)) = heuristic_signals feat"
    by (simp add: a written_flags_append n1 n2 written_flags_scoring
        raw_transactions_no_flags)
  show "\<forall>c \<in> set (fst (analyze_wallet env inp None)). \<not> is_metric c"
    using m1 m2 raw_transactions_no_metric[of _ env df] heuristic_block_no_metric[of _ feat]
    by (auto simp: a s)
qed

text \<open>
  C5: when the model file exists and loading it raises (at the start of the run and at
  every later attempt of the run), the failure is written to the sidebar and the run goes
  on without a model. If Analyze is pressed for a wallet and the features are extracted,
  the run ends without an exception; it shows the features, the no-model warning and no
  suspicion score, and it writes the heuristic signals of the features.
\<close>

theorem load_failure_degrades:
  assumes "model_path_exists env" and "load_model_start env = Inl e"
    and "isl (load_model_reload env)" and "isl (load_model_upload env)"
    and "isl (load_model_train env)"
    and "analyze inp" and "\<not> use_sample inp" and "wallet inp \<noteq> []"
    and "extracted env inp = Inr feat"
  shows "snd (script env inp) = None \<and>
         Sidebar (St_write [Str (''Failed to load ('' @ str e @ '')'')])
           \<in> set (fst (script env inp)) \<and>
         Main (St_json feat) \<in> set (fst (script env inp)) \<and>
         Main (St_warning no_model_warning) \<in> set (fst (script env inp)) \<and>
         (\<forall>c \<in> set (fst (script env inp)). \<not> is_metric c) \<and>
         written_flags (fst (script env inp)) = heuristic_signals feat"
proof -
  obtain out where mc: "model_controls env inp = (None, out)"
    using model_controls_load_failed(1)[OF assms(1-5), of inp]
    by (cases "model_controls env inp") simp
  have oa: "on_analyze env inp None = analyze_wallet env inp None"
    using assms(6-8) by (simp add: on_analyze_def)
  have sc: "script env inp =
      (out @ fst (analyze_wallet env inp None), snd (analyze_wallet env inp None))"
    by (simp add: script_def mc oa split: prod.splits)
  note mcs = model_controls_load_failed(2-4)[OF assms(1-5), of inp, unfolded mc snd_conv]
  note aw = analyze_wallet_no_model[OF assms(9)]
  show ?thesis
    using mcs aw by (auto simp: sc written_flags_append)
qed

theorem load_failure_degrades_witness:
  "model_path_exists example_env \<and> load_model_start example_env = Inl corrupt \<and>
   isl (load_model_reload example_env) \<and> isl (load_model_upload example_env) \<and>
   isl (load_model_train example_env) \<and>
   analyze example_inputs \<and> \<not> use_sample example_inputs \<and> wallet example_inputs \<noteq> [] \<and>
   extracted example_env example_inputs = Inr default_features \<and>
   script example_env example_inputs =
     ([Sidebar (St_write [Str ''Failed to load (corrupt model file)'']),
       Sidebar (St_error ''Reload failed: corrupt model file''),
       Main (St_info (''No Etherscan key provided '' @ em_dash @
                  '' will not fetch on-chain transactions (empty).'')),
       Main (St_subheader ''Extracted features''),
       Main (St_json default_features),
       Main (St_warning no_model_warning),
       Main (St_subheader ''Heuristic signals''),
       Main (St_write [Str ''- '', Str flag_few_tx]),
       Main (St_subheader ''Raw transactions (first 20)''),
       Main (St_write [Str ''No transactions to show (empty).''])], None)"
  using load_failure_degrades[of example_env corrupt example_inputs default_features]
  by (simp add: example_env_def example_inputs_def corrupt_def script_def model_controls_def
      model_at_start_def reload_model_def upload_model_def train_model_def on_analyze_def
      analyze_wallet_def extracted_def fetch_step_def dataframe_step_def scoring_def
      model_inference_def
      heuristic_block_def raw_transactions_def heuristic_signals_def feat_get_def
      default_features_def)

section \<open>Properties of the feature extractor\<close>

text \<open>
  C6: for the empty TransactionSet the extractor returns the whole schema with the
  documented defaults (tx_count = 0, tx_freq_per_day = 0, repeated_ratio = 0,
  hour_entropy = 10), and for zero or one transaction it returns a value for every key
  of the schema.
\<close>

theorem empty_set_defaults:
  "extract_features [] w =
     [''tx_count'' \<mapsto> 0, ''tx_freq_per_day'' \<mapsto> 0, ''repeated_ratio'' \<mapsto> 0,
      ''hour_entropy'' \<mapsto> 10] \<and>
   dom (extract_features [] w) = schema \<and> dom (extract_features [t] w) = schema"
  by (auto simp: extract_features_def tx_count_def involving_def tx_freq_per_day_def
      repeated_ratio_def hour_entropy_def schema_def)

theorem empty_set_defaults_witness:
  "extract_features [] ''0xabc'' = default_features \<and>
   dom (extract_features [one_tx] ''0xabc'') = schema"
  using empty_set_defaults[of "''0xabc''" one_tx]
  by (simp add: default_features_def)

text \<open>
  C7: for a TransactionSet of exactly one transaction the extractor gives hour_entropy =
  10, and the heuristic signals of its feature vector do not contain the low-entropy
  flag.
\<close>

theorem single_transaction_entropy:
  "extract_features [t] w ''hour_entropy'' = Some 10 \<and>
   flag_low_entropy \<notin> set (heuristic_signals (extract_features [t] w))"
  by (simp add: low_entropy_flag_iff)
     (simp add: extract_features_def hour_entropy_def feat_get_def)

theorem single_transaction_entropy_witness:
  "extract_features [one_tx] ''0xabc'' =
     [''tx_count'' \<mapsto> 1, ''tx_freq_per_day'' \<mapsto> 0, ''repeated_ratio'' \<mapsto> 0,
      ''hour_entropy'' \<mapsto> 10] \<and>
   heuristic_signals (extract_features [one_tx] ''0xabc'') = [flag_few_tx] \<and>
   flag_low_entropy \<notin> set (heuristic_signals (extract_features [one_tx] ''0xabc''))"
proof -
  have a: "extract_features [one_tx] ''0xabc'' =
     [''tx_count'' \<mapsto> 1, ''tx_freq_per_day'' \<mapsto> 0, ''repeated_ratio'' \<mapsto> 0,
      ''hour_entropy'' \<mapsto> 10]"
    by (simp add: extract_features_def tx_count_def involving_def tx_freq_per_day_def
        repeated_ratio_def hour_entropy_def counterparty_def one_tx_def)
  have b: "heuristic_signals (extract_features [one_tx] ''0xabc'') = [flag_few_tx]"
    by (simp add: a heuristic_signals_def feat_get_def)
  from a b single_transaction_entropy[of one_tx "''0xabc''"] show ?thesis by blast
qed

end
